theory Spec2Isabelle
  imports Complex_Main
begin

section \<open>The canonical V36.1 lepton g-2 engine\<close>

text \<open>
  A shallow embedding of \<^verbatim>\<open>src/physics/lepton_g2_canonical_v361.py\<close>
  (class \<^verbatim>\<open>LeptonG2CanonicalV361\<close>), of the wrapper class in
  \<^verbatim>\<open>unified_framework_with_v361.py\<close> and of the sweep in
  \<^verbatim>\<open>calibrate_muon_v361.py\<close>.

  Python floats are modelled as exact reals: every arithmetic operation is the
  mathematical one, \<^verbatim>\<open>np.pi\<close> is \<^term>\<open>pi\<close> and \<^verbatim>\<open>np.exp\<close> is
  \<^term>\<open>exp\<close>. A decimal literal such as \<^verbatim>\<open>1.4538e-10\<close> is the rational
  \<open>1.4538 / 10 ^ 10\<close>. Rounding, overflow and NaN are outside the model.
  Lepton identifiers are strings, as in the source. Exceptions are values of
  type \<open>error\<close>; a method that can raise returns \<open>error + 'a\<close>. Logging
  is omitted.
\<close>

subsection \<open>Errors and Python primitives\<close>

datatype error = ValueError | ZeroDivisionError | KeyError | AttributeError

text \<open>Python's \<^verbatim>\<open>a / b\<close> on floats raises \<^verbatim>\<open>ZeroDivisionError\<close> when \<^verbatim>\<open>b == 0\<close>.\<close>

definition py_div :: "real \<Rightarrow> real \<Rightarrow> error + real" where
  "py_div a b = (if b = 0 then Inl ZeroDivisionError else Inr (a / b))"

text \<open>Python's \<^verbatim>\<open>d[k]\<close> raises \<^verbatim>\<open>KeyError\<close> on a missing key.\<close>

definition dict_get :: "(string \<rightharpoonup> real) \<Rightarrow> string \<Rightarrow> error + real" where
  "dict_get d k = (case d k of None \<Rightarrow> Inl KeyError | Some v \<Rightarrow> Inr v)"

subsection \<open>The engine state\<close>

text \<open>The attributes of a \<^verbatim>\<open>LeptonG2CanonicalV361\<close> instance.\<close>

record engine =
  c1 :: real
  hardcoded_calibration :: bool
  m_e :: real
  m_mu :: real
  m_tau :: real
  phi_e :: real
  phi_mu :: real
  phi_tau :: real
  delta_a_nf :: "string \<rightharpoonup> real"
  calibrated_significance :: "string \<rightharpoonup> real"
  delta_a_e_nf :: real
  delta_a_mu_nf :: real
  delta_a_tau_nf :: real
  a_mu_exp :: real
  sigma_mu_exp :: real
  a_e_exp :: real
  a_e_sm :: real
  sigma_e_exp :: real

text \<open>
  The constructor \<^verbatim>\<open>__init__(chern_class=2.0, hardcoded_calibration=True)\<close>.
  The three back-compatibility attributes are read from the dictionary the
  constructor has just built.
\<close>

definition init :: "real \<Rightarrow> bool \<Rightarrow> engine" where
  "init chern_class hc =
     \<lparr> c1 = chern_class,
       hardcoded_calibration = hc,
       m_e = 0.000510998950,
       m_mu = 0.105658,
       m_tau = 1.77686,
       phi_e = 2.17,
       phi_mu = 4.32,
       phi_tau = 10.53,
       delta_a_nf = [''electron'' \<mapsto> 3.1 / 10 ^ 17,
                     ''muon'' \<mapsto> 1.4538 / 10 ^ 10,
                     ''tau'' \<mapsto> 5.2 / 10 ^ 10],
       calibrated_significance = [''electron'' \<mapsto> 0.11, ''muon'' \<mapsto> 0.00],
       delta_a_e_nf = 3.1 / 10 ^ 17,
       delta_a_mu_nf = 1.4538 / 10 ^ 10,
       delta_a_tau_nf = 5.2 / 10 ^ 10,
       a_mu_exp = 2.51 / 10 ^ 9,
       sigma_mu_exp = 6.3 / 10 ^ 10,
       a_e_exp = 1.15965218073 / 10 ^ 3,
       a_e_sm = 1.15965218076 / 10 ^ 3,
       sigma_e_exp = 2.8 / 10 ^ 13 \<rparr>"

subsection \<open>Topology formulas\<close>

text \<open>\<^verbatim>\<open>compute_berry_overlap\<close>: \<open>\<Omega> = 1 - \<phi>/(4\<pi>)\<close>. The divisor \<open>4\<pi>\<close> is never zero.\<close>

definition compute_berry_overlap :: "real \<Rightarrow> real" where
  "compute_berry_overlap phi_l = 1 - phi_l / (4 * pi)"

text \<open>
  \<^verbatim>\<open>compute_chern2_cross(phi_l1, phi_l2, use_v361)\<close>: the basic product, then
  the three literal pairs in the order of the source's \<^verbatim>\<open>if/elif\<close> chain, then
  the fallback with the overlap factor of the second phase.
\<close>

definition compute_chern2_cross :: "real \<Rightarrow> real \<Rightarrow> bool \<Rightarrow> real" where
  "compute_chern2_cross phi_l1 phi_l2 use_v361 =
     (let c2_base = 2 * phi_l1 * phi_l2 in
      if \<not> use_v361 then c2_base
      else if phi_l1 = 4.32 \<and> phi_l2 = 10.53 then 75.29
      else if phi_l1 = 2.17 \<and> phi_l2 = 4.32 then 15.50
      else if phi_l1 = 2.17 \<and> phi_l2 = 10.53 then 37.8
      else (let omega_factor = 1 - phi_l2 / (4 * pi);
                c2_v361 = c2_base * omega_factor
            in c2_v361))"

definition compute_topological_area :: real where
  "compute_topological_area = 16 * pi\<^sup>2"

text \<open>\<^verbatim>\<open>compute_lambda_topo\<close>: the area \<open>16\<pi>\<^sup>2\<close> is never zero, so the division cannot raise.\<close>

definition compute_lambda_topo :: "real \<Rightarrow> real" where
  "compute_lambda_topo c2 = (let area = compute_topological_area in c2 / area)"

subsection \<open>Amplitude engine\<close>

text \<open>
  \<^verbatim>\<open>compute_amplitude_canonical\<close>: both divisions can raise, in the order the
  source evaluates them.
\<close>

definition compute_amplitude_canonical ::
  "engine \<Rightarrow> real \<Rightarrow> real \<Rightarrow> real \<Rightarrow> real \<Rightarrow> error + real" where
  "compute_amplitude_canonical s m_lepton m_heavy delta c2 =
     (case py_div m_heavy m_lepton of
        Inl e \<Rightarrow> Inl e
      | Inr q \<Rightarrow>
          (let K = q\<^sup>2 in
           case py_div c2 ((c1 s)\<^sup>2 + K) of
             Inl e \<Rightarrow> Inl e
           | Inr epsilon_top \<Rightarrow> Inr (delta * K * epsilon_top)))"

text \<open>
  The lepton dispatch of \<^verbatim>\<open>predict_g2_correction\<close>: the tuple
  \<open>(m_lepton, m_heavy, phi_lepton, phi_heavy, delta_a_nf)\<close>, or the
  \<^verbatim>\<open>ValueError\<close> of the final \<^verbatim>\<open>else\<close>.
\<close>

definition select_parameters ::
  "engine \<Rightarrow> string \<Rightarrow> error + (real \<times> real \<times> real \<times> real \<times> real)" where
  "select_parameters s lepton =
     (if lepton = ''electron'' then
        (case dict_get (delta_a_nf s) ''electron'' of
           Inl e \<Rightarrow> Inl e
         | Inr d \<Rightarrow> Inr (m_e s, m_mu s, phi_e s, phi_mu s, d))
      else if lepton = ''muon'' then
        (case dict_get (delta_a_nf s) ''muon'' of
           Inl e \<Rightarrow> Inl e
         | Inr d \<Rightarrow> Inr (m_mu s, m_tau s, phi_mu s, phi_tau s, d))
      else if lepton = ''tau'' then
        (case dict_get (delta_a_nf s) ''tau'' of
           Inl e \<Rightarrow> Inl e
         | Inr d \<Rightarrow> Inr (m_tau s, m_tau s * 2, phi_tau s, phi_tau s * 1.5, d))
      else Inl ValueError)"

definition predict_g2_correction :: "engine \<Rightarrow> string \<Rightarrow> bool \<Rightarrow> error + real" where
  "predict_g2_correction s lepton use_v361 =
     (case select_parameters s lepton of
        Inl e \<Rightarrow> Inl e
      | Inr (m_lepton, m_heavy, phi_lepton, phi_heavy, delta) \<Rightarrow>
          (let c2 = compute_chern2_cross phi_lepton phi_heavy use_v361;
               lambda_topo = compute_lambda_topo c2
           in case compute_amplitude_canonical s m_lepton m_heavy delta c2 of
                Inl e \<Rightarrow> Inl e
              | Inr A \<Rightarrow> Inr (A * (1 - exp (- lambda_topo * c2)))))"

subsection \<open>Significance evaluator\<close>

text \<open>
  The result dictionary of \<^verbatim>\<open>calculate_significance\<close>; field \<open>r_k\<close> is the
  key \<^verbatim>\<open>"k"\<close>. Python's \<^verbatim>\<open>None\<close> is \<^term>\<open>None\<close>.
\<close>

record sig_result =
  r_lepton :: string
  r_version :: string
  r_a_lepton_eqft :: real
  r_a_sm :: real
  r_a_total :: real
  r_a_exp :: "real option"
  r_delta :: "real option"
  r_significance :: "real option"
  r_phi_lepton :: real
  r_phi_heavy :: real
  r_omega :: real
  r_c2 :: real
  r_lambda_topo :: real

text \<open>
  The lepton dispatch of \<^verbatim>\<open>calculate_significance\<close>: the tuple
  \<open>(a_sm, a_exp, sigma_exp, a_total, delta, phi_lepton, phi_heavy)\<close>.
\<close>

definition select_reference ::
  "engine \<Rightarrow> string \<Rightarrow> real \<Rightarrow>
     error + (real \<times> real option \<times> real option \<times> real \<times> real option \<times> real \<times> real)" where
  "select_reference s lepton a_lepton_eqft =
     (if lepton = ''electron'' then
        (let a_sm = a_e_sm s; a_exp = a_e_exp s; sigma_exp = sigma_e_exp s;
             a_total = a_sm + a_lepton_eqft;
             delta = a_total - a_exp
         in Inr (a_sm, Some a_exp, Some sigma_exp, a_total, Some delta, phi_e s, phi_mu s))
      else if lepton = ''muon'' then
        (let a_sm = 0; a_exp = a_mu_exp s; sigma_exp = sigma_mu_exp s;
             a_total = a_lepton_eqft;
             delta = a_total - a_exp
         in Inr (a_sm, Some a_exp, Some sigma_exp, a_total, Some delta, phi_mu s, phi_tau s))
      else if lepton = ''tau'' then
        Inr (0, None, None, a_lepton_eqft, None, phi_tau s, phi_tau s * 1.5)
      else Inl ValueError)"

text \<open>
  The test \<^verbatim>\<open>is_calibrated_value\<close> of the benchmark mode: the electron branch
  first, then the muon branch; the dictionary is read only in the branch whose
  lepton matches. The comparison is the source's
  \<^verbatim>\<open>abs(delta - literal) < tolerance\<close> in exact reals, with the decimal
  literals as rationals. The source evaluates it in doubles; the two can
  differ only within rounding distance of an edge of a window.
\<close>

definition is_calibrated_value :: "engine \<Rightarrow> string \<Rightarrow> error + bool" where
  "is_calibrated_value s lepton =
     (if lepton = ''electron'' then
        (case dict_get (delta_a_nf s) lepton of
           Inl e \<Rightarrow> Inl e
         | Inr d \<Rightarrow> Inr (\<bar>d - 3.1 / 10 ^ 17\<bar> < 1 / 10 ^ 18))
      else if lepton = ''muon'' then
        (case dict_get (delta_a_nf s) lepton of
           Inl e \<Rightarrow> Inl e
         | Inr d \<Rightarrow> Inr (\<bar>d - 1.4538 / 10 ^ 10\<bar> < 1 / 10 ^ 14))
      else Inr False)"

text \<open>
  The block that computes \<^verbatim>\<open>significance\<close>: \<^verbatim>\<open>None\<close> unless a discrepancy and
  a positive uncertainty exist; then \<open>delta / sigma_exp\<close>, replaced by the
  calibrated literal in benchmark mode.
\<close>

definition compute_significance ::
  "engine \<Rightarrow> string \<Rightarrow> bool \<Rightarrow> real option \<Rightarrow> real option \<Rightarrow> error + real option" where
  "compute_significance s lepton use_v361 delta sigma_exp =
     (case (delta, sigma_exp) of
        (Some dl, Some sg) \<Rightarrow>
          (if sg > 0 then
             (let significance = dl / sg in
              if hardcoded_calibration s \<and> use_v361 \<and> lepton \<in> dom (calibrated_significance s)
              then (case is_calibrated_value s lepton of
                      Inl e \<Rightarrow> Inl e
                    | Inr True \<Rightarrow>
                        (case dict_get (calibrated_significance s) lepton of
                           Inl e \<Rightarrow> Inl e
                         | Inr calibrated_value \<Rightarrow> Inr (Some calibrated_value))
                    | Inr False \<Rightarrow> Inr (Some significance))
              else Inr (Some significance))
           else Inr None)
      | _ \<Rightarrow> Inr None)"

text \<open>
  \<^verbatim>\<open>calculate_significance(lepton, a_lepton_eqft=None, use_v361=True)\<close>: the
  prediction is computed when it is not supplied.
\<close>

definition calculate_significance ::
  "engine \<Rightarrow> string \<Rightarrow> real option \<Rightarrow> bool \<Rightarrow> error + sig_result" where
  "calculate_significance s lepton a_opt use_v361 =
     (case (case a_opt of None \<Rightarrow> predict_g2_correction s lepton use_v361
                         | Some a \<Rightarrow> Inr a) of
        Inl e \<Rightarrow> Inl e
      | Inr a_lepton_eqft \<Rightarrow>
          (case select_reference s lepton a_lepton_eqft of
             Inl e \<Rightarrow> Inl e
           | Inr (a_sm, a_exp, sigma_exp, a_total, delta, phi_lepton, phi_heavy) \<Rightarrow>
               (case compute_significance s lepton use_v361 delta sigma_exp of
                  Inl e \<Rightarrow> Inl e
                | Inr significance \<Rightarrow>
                    (let c2 = compute_chern2_cross phi_lepton phi_heavy use_v361;
                         omega = (if use_v361 then compute_berry_overlap phi_lepton else 1);
                         lambda_topo = compute_lambda_topo c2
                     in Inr \<lparr> r_lepton = lepton,
                              r_version = (if use_v361 then ''V36.1'' else ''V36''),
                              r_a_lepton_eqft = a_lepton_eqft,
                              r_a_sm = a_sm,
                              r_a_total = a_total,
                              r_a_exp = a_exp,
                              r_delta = delta,
                              r_significance = significance,
                              r_phi_lepton = phi_lepton,
                              r_phi_heavy = phi_heavy,
                              r_omega = omega,
                              r_c2 = c2,
                              r_lambda_topo = lambda_topo \<rparr>))))"

subsection \<open>Parameter store mutators\<close>

text \<open>\<^verbatim>\<open>set_berry_phases(phi_e=None, phi_mu=None, phi_tau=None)\<close>.\<close>

definition set_berry_phases ::
  "engine \<Rightarrow> real option \<Rightarrow> real option \<Rightarrow> real option \<Rightarrow> engine" where
  "set_berry_phases s pe pm pt =
     (let s1 = (case pe of None \<Rightarrow> s | Some v \<Rightarrow> s\<lparr>phi_e := v\<rparr>);
          s2 = (case pm of None \<Rightarrow> s1 | Some v \<Rightarrow> s1\<lparr>phi_mu := v\<rparr>);
          s3 = (case pt of None \<Rightarrow> s2 | Some v \<Rightarrow> s2\<lparr>phi_tau := v\<rparr>)
      in s3)"

text \<open>
  \<^verbatim>\<open>set_hardcoded_calibration(enabled)\<close>: assigns the attribute, then returns
  the attribute. The pair is (returned value, new state).
\<close>

definition set_hardcoded_calibration :: "engine \<Rightarrow> bool \<Rightarrow> bool \<times> engine" where
  "set_hardcoded_calibration s enabled =
     (let s' = s\<lparr>hardcoded_calibration := enabled\<rparr>
      in (hardcoded_calibration s', s'))"

text \<open>
  \<^verbatim>\<open>set_delta_a_nf(lepton, value)\<close>: the membership check, the dictionary
  update, then the matching back-compatibility attribute.
\<close>

definition set_delta_a_nf :: "engine \<Rightarrow> string \<Rightarrow> real \<Rightarrow> error + engine" where
  "set_delta_a_nf s lepton v =
     (if lepton \<notin> set [''electron'', ''muon'', ''tau''] then Inl ValueError
      else
        (let s1 = s\<lparr>delta_a_nf := (delta_a_nf s)(lepton \<mapsto> v)\<rparr> in
         if lepton = ''electron'' then Inr (s1\<lparr>delta_a_e_nf := v\<rparr>)
         else if lepton = ''muon'' then Inr (s1\<lparr>delta_a_mu_nf := v\<rparr>)
         else if lepton = ''tau'' then Inr (s1\<lparr>delta_a_tau_nf := v\<rparr>)
         else Inr s1))"

subsection \<open>The framework wrapper\<close>

text \<open>
  \<^verbatim>\<open>UnifiedFrameworkWithV361\<close> extends \<^verbatim>\<open>EnhancedUnifiedFramework\<close> and owns
  one engine, built with the framework's \<^verbatim>\<open>chern_class\<close> and the default
  benchmark mode.
\<close>

record framework =
  f_c1 :: real
  chern_class_attr :: real
  g2_calculator :: engine

definition new_framework :: "real \<Rightarrow> framework" where
  "new_framework chern_class =
     \<lparr> f_c1 = chern_class,
       chern_class_attr = chern_class,
       g2_calculator = init chern_class True \<rparr>"

text \<open>
  The result dictionary of \<^verbatim>\<open>calculate_anomalous_magnetic_moment\<close>; field
  \<open>f_k\<close> is the key \<^verbatim>\<open>"k"\<close>. The keys \<^verbatim>\<open>"discrepancy"\<close>,
  \<^verbatim>\<open>"discrepancy_sigma"\<close> and \<^verbatim>\<open>"canonical_info"\<close> may be missing: they
  are \<^term>\<open>None\<close> then. The canonical information is the tuple
  \<open>(version, phi_lepton, phi_heavy, c2, lambda_topo, omega)\<close>.
\<close>

record amm_result =
  f_a_sm :: real
  f_a_exp :: "real option"
  f_a_exp_uncertainty :: "real option"
  f_a_nf :: real
  f_a_total :: real
  f_discrepancy :: "real option"
  f_discrepancy_sigma :: "real option"
  f_canonical_info :: "(string \<times> real \<times> real \<times> real \<times> real \<times> real option) option"

definition sm_values :: "string \<rightharpoonup> real" where
  "sm_values = [''electron'' \<mapsto> 1.159652 / 10 ^ 3,
                ''muon'' \<mapsto> 1.1659101 / 10 ^ 3,
                ''tau'' \<mapsto> 1.1765217 / 10 ^ 3]"

definition exp_values :: "string \<rightharpoonup> real option" where
  "exp_values = [''electron'' \<mapsto> Some (1.15965218073 / 10 ^ 3),
                 ''muon'' \<mapsto> None,
                 ''tau'' \<mapsto> None]"

definition exp_uncertainties :: "string \<rightharpoonup> real option" where
  "exp_uncertainties = [''electron'' \<mapsto> Some (2.8 / 10 ^ 13),
                        ''muon'' \<mapsto> Some (6.3 / 10 ^ 10),
                        ''tau'' \<mapsto> None]"

text \<open>
  The two steps that fill \<^verbatim>\<open>"discrepancy"\<close> and \<^verbatim>\<open>"discrepancy_sigma"\<close>;
  both classes run them on \<^verbatim>\<open>a_exp - a_total\<close>.
\<close>

definition fill_discrepancy :: "amm_result \<Rightarrow> amm_result" where
  "fill_discrepancy r =
     (case f_a_exp r of
        None \<Rightarrow> r
      | Some ae \<Rightarrow>
          (let d = ae - f_a_total r; r1 = r\<lparr>f_discrepancy := Some d\<rparr> in
           case f_a_exp_uncertainty r of
             None \<Rightarrow> r1
           | Some u \<Rightarrow> if u > 0 then r1\<lparr>f_discrepancy_sigma := Some (d / u)\<rparr> else r1))"

text \<open>
  \<^verbatim>\<open>EnhancedUnifiedFramework.calculate_anomalous_magnetic_moment\<close>. For a
  particle outside the tables the dictionary stays empty and the closing log
  line reads \<^verbatim>\<open>result['a_sm']\<close>, which raises \<^verbatim>\<open>KeyError\<close>.
\<close>

definition base_calculate_anomalous_magnetic_moment :: "string \<Rightarrow> error + amm_result" where
  "base_calculate_anomalous_magnetic_moment particle_name =
     (case (sm_values particle_name, exp_values particle_name,
            exp_uncertainties particle_name) of
        (Some sm, Some ae, Some au) \<Rightarrow>
          Inr (fill_discrepancy
                 \<lparr> f_a_sm = sm, f_a_exp = ae, f_a_exp_uncertainty = au,
                   f_a_nf = 0, f_a_total = sm,
                   f_discrepancy = None, f_discrepancy_sigma = None,
                   f_canonical_info = None \<rparr>)
      | _ \<Rightarrow> Inl KeyError)"

definition compute_g_minus_2_canonical :: "framework \<Rightarrow> string \<Rightarrow> bool \<Rightarrow> error + real" where
  "compute_g_minus_2_canonical fw fermion use_v361 =
     (if fermion \<notin> set [''muon'', ''electron'', ''tau''] then Inr 0
      else predict_g2_correction (g2_calculator fw) fermion use_v361)"

text \<open>
  \<^verbatim>\<open>compute_g_minus_2\<close>: the non-canonical branch calls a method the parent
  class does not define.
\<close>

definition compute_g_minus_2 ::
  "framework \<Rightarrow> string \<Rightarrow> real \<Rightarrow> bool \<Rightarrow> bool \<Rightarrow> error + real" where
  "compute_g_minus_2 fw fermion topological_charge use_canonical use_v361 =
     (if fermion \<in> set [''muon'', ''electron'', ''tau''] \<and> use_canonical
      then compute_g_minus_2_canonical fw fermion use_v361
      else Inl AttributeError)"

definition topological_charges :: "string \<rightharpoonup> real" where
  "topological_charges = [''electron'' \<mapsto> 1, ''muon'' \<mapsto> 2, ''tau'' \<mapsto> 4]"

definition calculate_anomalous_magnetic_moment ::
  "framework \<Rightarrow> string \<Rightarrow> bool \<Rightarrow> bool \<Rightarrow> bool \<Rightarrow> error + amm_result" where
  "calculate_anomalous_magnetic_moment fw particle_name include_topological_correction
       use_canonical use_v361 =
     (case base_calculate_anomalous_magnetic_moment particle_name of
        Inl e \<Rightarrow> Inl e
      | Inr result \<Rightarrow>
          (case (if include_topological_correction
                 then (case dict_get topological_charges particle_name of
                         Inl e \<Rightarrow> Inl e
                       | Inr tc \<Rightarrow>
                           compute_g_minus_2 fw particle_name tc use_canonical use_v361)
                 else Inr 0) of
             Inl e \<Rightarrow> Inl e
           | Inr a_nf \<Rightarrow>
               (let result1 = result\<lparr>f_a_nf := a_nf, f_a_total := f_a_sm result + a_nf\<rparr>;
                    result2 = fill_discrepancy result1
                in if particle_name \<in> set [''muon'', ''electron'', ''tau''] \<and> use_canonical
                      \<and> include_topological_correction
                   then (case calculate_significance (g2_calculator fw) particle_name
                                (Some a_nf) use_v361 of
                           Inl e \<Rightarrow> Inl e
                         | Inr calc_results \<Rightarrow>
                             (let info = (if use_v361 then ''V36.1'' else ''V36'',
                                          r_phi_lepton calc_results,
                                          r_phi_heavy calc_results,
                                          r_c2 calc_results,
                                          r_lambda_topo calc_results,
                                          if use_v361 then Some (r_omega calc_results)
                                          else None);
                                  result3 = result2\<lparr>f_canonical_info := Some info\<rparr>
                              in case r_significance calc_results of
                                   None \<Rightarrow> Inr result3
                                 | Some sg \<Rightarrow>
                                     Inr (result3\<lparr>f_discrepancy_sigma := Some sg\<rparr>)))
                   else Inr result2)))"

definition fw_set_berry_phases ::
  "framework \<Rightarrow> real option \<Rightarrow> real option \<Rightarrow> real option \<Rightarrow> framework" where
  "fw_set_berry_phases fw pe pm pt =
     fw\<lparr>g2_calculator := set_berry_phases (g2_calculator fw) pe pm pt\<rparr>"

definition fw_set_delta_a_nf :: "framework \<Rightarrow> string \<Rightarrow> real \<Rightarrow> error + framework" where
  "fw_set_delta_a_nf fw lepton v =
     (case set_delta_a_nf (g2_calculator fw) lepton v of
        Inl e \<Rightarrow> Inl e
      | Inr s \<Rightarrow> Inr (fw\<lparr>g2_calculator := s\<rparr>))"

subsection \<open>The calibration sweep\<close>

text \<open>
  \<^verbatim>\<open>np.linspace(start, stop, num)\<close> with the end point included: \<open>num\<close>
  points \<open>i * step + start\<close> with \<open>step = (stop - start) / (num - 1)\<close>, the
  last one set to \<open>stop\<close>.
\<close>

definition linspace :: "real \<Rightarrow> real \<Rightarrow> nat \<Rightarrow> real list" where
  "linspace start stop num =
     (if num = 0 then []
      else if num = 1 then [start]
      else map (\<lambda>i. real i * ((stop - start) / real (num - 1)) + start) [0..<num - 1]
           @ [stop])"

text \<open>
  The loop of \<^verbatim>\<open>calibrate_muon_g2_v361\<close>: set the trial value, evaluate, read
  \<^verbatim>\<open>result["a_nf"]\<close> and \<^verbatim>\<open>result["discrepancy_sigma"]\<close>, append the record.
\<close>

fun sweep ::
  "framework \<Rightarrow> real list \<Rightarrow> (real \<times> real \<times> real) list \<Rightarrow> error + (real \<times> real \<times> real) list" where
  "sweep fw [] results = Inr results"
| "sweep fw (delta # rest) results =
     (case fw_set_delta_a_nf fw ''muon'' delta of
        Inl e \<Rightarrow> Inl e
      | Inr fw1 \<Rightarrow>
          (case calculate_anomalous_magnetic_moment fw1 ''muon'' True True True of
             Inl e \<Rightarrow> Inl e
           | Inr result \<Rightarrow>
               (case f_discrepancy_sigma result of
                  None \<Rightarrow> Inl KeyError
                | Some significance \<Rightarrow>
                    sweep fw1 rest (results @ [(delta, f_a_nf result, significance)]))))"

text \<open>
  Python's \<^verbatim>\<open>min(results, key=lambda x: abs(x[2]))\<close>: the first record whose key
  is minimal; \<^verbatim>\<open>ValueError\<close> on an empty list.
\<close>

fun min_from :: "(real \<times> real \<times> real) \<Rightarrow> (real \<times> real \<times> real) list \<Rightarrow> (real \<times> real \<times> real)" where
  "min_from best [] = best"
| "min_from best (x # xs) =
     (if \<bar>snd (snd x)\<bar> < \<bar>snd (snd best)\<bar> then min_from x xs else min_from best xs)"

definition min_abs_significance ::
  "(real \<times> real \<times> real) list \<Rightarrow> error + (real \<times> real \<times> real)" where
  "min_abs_significance results =
     (case results of [] \<Rightarrow> Inl ValueError | x # xs \<Rightarrow> Inr (min_from x xs))"

text \<open>
  \<^verbatim>\<open>calibrate_muon_g2_v361()\<close> up to its return value
  \<open>(best_delta, best_significance)\<close>; the plot and the report file are omitted.
\<close>

definition calibrate_muon_g2_v361 :: "error + (real \<times> real)" where
  "calibrate_muon_g2_v361 =
     (let framework0 = new_framework 2;
          framework1 = fw_set_berry_phases framework0 (Some 2.17) (Some 4.32) (Some 10.53);
          delta_values = linspace (1.43 / 10 ^ 10) (1.46 / 10 ^ 10) 30
      in case sweep framework1 delta_values [] of
           Inl e \<Rightarrow> Inl e
         | Inr results \<Rightarrow>
             (case min_abs_significance results of
                Inl e \<Rightarrow> Inl e
              | Inr (best_delta, best_a_bsm, best_significance) \<Rightarrow>
                  Inr (best_delta, best_significance)))"

subsection \<open>State invariant and reference formulas\<close>

text \<open>
  The invariant of the parameter store: the masses are positive and ordered,
  the experimental uncertainties are positive, the raw-correction dictionary
  has its three keys, and the table of calibrated significances is the one the
  constructor builds. The constructor establishes it and every mutator keeps it.
\<close>
definition store_ok :: "engine \<Rightarrow> bool" where
  "store_ok s \<longleftrightarrow>
     0 < m_e s \<and> m_e s < m_mu s \<and> m_mu s < m_tau s
     \<and> 0 < sigma_mu_exp s \<and> 0 < sigma_e_exp s
     \<and> ''electron'' \<in> dom (delta_a_nf s)
     \<and> ''muon'' \<in> dom (delta_a_nf s)
     \<and> ''tau'' \<in> dom (delta_a_nf s)
     \<and> calibrated_significance s = [''electron'' \<mapsto> 0.11, ''muon'' \<mapsto> 0.00]"

text \<open>
  The prediction as the specification words it, from the resolved parameters
  \<open>(mass, heavyMass, phase, heavyPhase, rawCorrection)\<close> and the tolerance class:
  \<open>c2 = crossClass(phase, heavyPhase, variant)\<close>, \<open>lambda = c2/(16\<pi>\<^sup>2)\<close>,
  \<open>K = (heavyMass/mass)\<^sup>2\<close>, \<open>epsilonTop = c2/(toleranceClass\<^sup>2 + K)\<close>,
  \<open>A = rawCorrection \<cdot> K \<cdot> epsilonTop\<close>, result \<open>A \<cdot> (1 - exp(-lambda \<cdot> c2))\<close>.
\<close>
definition canonical_prediction ::
  "real \<Rightarrow> real \<Rightarrow> real \<Rightarrow> real \<Rightarrow> real \<Rightarrow> real \<Rightarrow> bool \<Rightarrow> real" where
  "canonical_prediction tolerance_class mass heavy_mass phase heavy_phase raw_correction variant =
     (let c2 = compute_chern2_cross phase heavy_phase variant;
          lam = c2 / (16 * pi\<^sup>2);
          K = (heavy_mass / mass)\<^sup>2;
          epsilon_top = c2 / (tolerance_class\<^sup>2 + K);
          A = raw_correction * K * epsilon_top
      in A * (1 - exp (- lam * c2)))"

text \<open>
  A nonzero real \<open>x\<close> is of the order of magnitude \<open>10\<^sup>-\<^sup>n\<close> when
  \<open>10\<^sup>-\<^sup>n \<le> |x| < 10 \<cdot> 10\<^sup>-\<^sup>n\<close>; a call is so when it returns such a value.
\<close>

definition order_of_magnitude :: "real \<Rightarrow> nat \<Rightarrow> bool" where
  "order_of_magnitude x n \<longleftrightarrow> 1 / 10 ^ n \<le> \<bar>x\<bar> \<and> \<bar>x\<bar> < 10 / 10 ^ n"

definition returns_order_of_magnitude :: "error + real \<Rightarrow> nat \<Rightarrow> bool" where
  "returns_order_of_magnitude r n =
     (case r of Inl e \<Rightarrow> False | Inr x \<Rightarrow> order_of_magnitude x n)"

text \<open>
  The record \<open>(delta, a_bsm, significance)\<close> that one pass of the sweep's loop
  appends for the trial value \<open>d\<close>, in closed form: the canonical muon
  prediction with raw correction \<open>d\<close>, and the significance the evaluator
  reports for it with the overlap variant. Lemma \<open>sweep_records\<close> proves that
  the loop produces exactly these records.
\<close>

definition trial_record :: "engine \<Rightarrow> real \<Rightarrow> real \<times> real \<times> real" where
  "trial_record s d =
     (let p = canonical_prediction (c1 s) (m_mu s) (m_tau s) (phi_mu s) (phi_tau s) d True
      in (d, p,
          if hardcoded_calibration s \<and> \<bar>d - 1.4538 / 10 ^ 10\<bar> < 1 / 10 ^ 14 then 0
          else (p - a_mu_exp s) / sigma_mu_exp s))"

section \<open>Properties\<close>

subsection \<open>The invariant\<close>

lemma store_ok_init: "store_ok (init chern_class hc)"
  by (simp add: store_ok_def init_def)

lemma store_ok_set_berry_phases:
  "store_ok s \<Longrightarrow> store_ok (set_berry_phases s pe pm pt)"
  by (simp add: store_ok_def set_berry_phases_def split: option.splits)

lemma store_ok_set_hardcoded_calibration:
  "store_ok s \<Longrightarrow> store_ok (snd (set_hardcoded_calibration s enabled))"
  by (simp add: store_ok_def set_hardcoded_calibration_def)

lemma store_ok_set_delta_a_nf:
  "store_ok s \<Longrightarrow> set_delta_a_nf s lepton v = Inr s' \<Longrightarrow> store_ok s'"
  by (auto simp: store_ok_def set_delta_a_nf_def Let_def split: if_splits)

subsection \<open>Prediction\<close>

lemma amplitude_value:
  assumes "m \<noteq> 0" and "mh \<noteq> 0"
  shows "compute_amplitude_canonical s m mh d c =
           Inr (d * (mh / m)\<^sup>2 * (c / ((c1 s)\<^sup>2 + (mh / m)\<^sup>2)))"
proof -
  have "0 < (mh / m)\<^sup>2" using assms by simp
  then have "(c1 s)\<^sup>2 + (mh / m)\<^sup>2 \<noteq> 0"
    by (metis add_pos_nonneg add.commute less_irrefl zero_le_power2)
  then show ?thesis using assms by (simp add: compute_amplitude_canonical_def py_div_def Let_def)
qed

lemma predict_value:
  assumes "select_parameters s lepton = Inr (m, mh, p, ph, d)" and "m \<noteq> 0" and "mh \<noteq> 0"
  shows "predict_g2_correction s lepton v = Inr (canonical_prediction (c1 s) m mh p ph d v)"
  using assms
  by (simp add: predict_g2_correction_def amplitude_value canonical_prediction_def Let_def
      compute_lambda_topo_def compute_topological_area_def)

text \<open>
  Claim C4. For each of the three leptons, \<^verbatim>\<open>predict_g2_correction\<close> returns
  the canonical prediction of the parameters it resolves from the store:
  the electron against the muon, the muon against the tau, and the tau against
  the synthesized partner with twice its mass and 1.5 times its phase.
\<close>
theorem predict_g2_correction_formula:
  assumes "store_ok s"
    and "delta_a_nf s ''electron'' = Some d_e"
    and "delta_a_nf s ''muon'' = Some d_mu"
    and "delta_a_nf s ''tau'' = Some d_tau"
  shows "predict_g2_correction s ''electron'' v =
           Inr (canonical_prediction (c1 s) (m_e s) (m_mu s) (phi_e s) (phi_mu s) d_e v)
       \<and> predict_g2_correction s ''muon'' v =
           Inr (canonical_prediction (c1 s) (m_mu s) (m_tau s) (phi_mu s) (phi_tau s) d_mu v)
       \<and> predict_g2_correction s ''tau'' v =
           Inr (canonical_prediction (c1 s) (m_tau s) (2 * m_tau s) (phi_tau s)
                  (1.5 * phi_tau s) d_tau v)"
proof -
  have pos: "m_e s \<noteq> 0" "m_mu s \<noteq> 0" "m_tau s \<noteq> 0" "m_tau s * 2 \<noteq> 0"
    using assms(1) by (auto simp: store_ok_def)
  have e: "select_parameters s ''electron'' = Inr (m_e s, m_mu s, phi_e s, phi_mu s, d_e)"
    using assms(2) by (simp add: select_parameters_def dict_get_def)
  have m: "select_parameters s ''muon'' = Inr (m_mu s, m_tau s, phi_mu s, phi_tau s, d_mu)"
    using assms(3) by (simp add: select_parameters_def dict_get_def)
  have t: "select_parameters s ''tau'' =
             Inr (m_tau s, m_tau s * 2, phi_tau s, phi_tau s * 1.5, d_tau)"
    using assms(4) by (simp add: select_parameters_def dict_get_def)
  show ?thesis
    using predict_value [OF e pos(1) pos(2)] predict_value [OF m pos(2) pos(3)]
      predict_value [OF t pos(3) pos(4)]
    by (simp add: mult.commute)
qed


theorem predict_g2_correction_formula_witness:
  "store_ok (init 2 True)
   \<and> delta_a_nf (init 2 True) ''electron'' = Some (3.1 / 10 ^ 17)
   \<and> delta_a_nf (init 2 True) ''muon'' = Some (1.4538 / 10 ^ 10)
   \<and> delta_a_nf (init 2 True) ''tau'' = Some (5.2 / 10 ^ 10)
   \<and> predict_g2_correction (init 2 True) ''electron'' True =
        Inr (canonical_prediction 2 0.000510998950 0.105658 2.17 4.32 (3.1 / 10 ^ 17) True)
   \<and> predict_g2_correction (init 2 True) ''muon'' True =
        Inr (canonical_prediction 2 0.105658 1.77686 4.32 10.53 (1.4538 / 10 ^ 10) True)
   \<and> predict_g2_correction (init 2 True) ''tau'' True =
        Inr (canonical_prediction 2 1.77686 (2 * 1.77686) 10.53 (1.5 * 10.53)
               (5.2 / 10 ^ 10) True)"
proof -
  have h1: "store_ok (init 2 True)" by (simp add: store_ok_def init_def)
  have h2: "delta_a_nf (init 2 True) ''electron'' = Some (3.1 / 10 ^ 17)"
    by (simp add: init_def)
  have h3: "delta_a_nf (init 2 True) ''muon'' = Some (1.4538 / 10 ^ 10)"
    by (simp add: init_def)
  have h4: "delta_a_nf (init 2 True) ''tau'' = Some (5.2 / 10 ^ 10)"
    by (simp add: init_def)
  have f: "c1 (init 2 True) = 2" "m_e (init 2 True) = 0.000510998950"
    "m_mu (init 2 True) = 0.105658" "m_tau (init 2 True) = 1.77686"
    "phi_e (init 2 True) = 2.17" "phi_mu (init 2 True) = 4.32" "phi_tau (init 2 True) = 10.53"
    by (simp_all add: init_def)
  show ?thesis
    using h1 h2 h3 h4 predict_g2_correction_formula [OF h1 h2 h3 h4, of True]
    unfolding f by simp
qed

subsection \<open>Significance\<close>

lemma compute_significance_muon:
  assumes "store_ok s" and "delta_a_nf s ''muon'' = Some d"
  shows "compute_significance s ''muon'' v (Some dl) (Some (sigma_mu_exp s)) =
           Inr (Some (if hardcoded_calibration s \<and> v \<and> \<bar>d - 1.4538 / 10 ^ 10\<bar> < 1 / 10 ^ 14
                      then 0 else dl / sigma_mu_exp s))"
  using assms
  by (simp add: compute_significance_def store_ok_def is_calibrated_value_def dict_get_def
      Let_def)

lemma compute_significance_electron:
  assumes "store_ok s" and "delta_a_nf s ''electron'' = Some d"
  shows "compute_significance s ''electron'' v (Some dl) (Some (sigma_e_exp s)) =
           Inr (Some (if hardcoded_calibration s \<and> v \<and> \<bar>d - 3.1 / 10 ^ 17\<bar> < 1 / 10 ^ 18
                      then 0.11 else dl / sigma_e_exp s))"
  using assms
  by (simp add: compute_significance_def store_ok_def is_calibrated_value_def dict_get_def
      Let_def)

lemma calculate_significance_muon:
  assumes "store_ok s" and "delta_a_nf s ''muon'' = Some d"
    and "(case a_opt of None \<Rightarrow> predict_g2_correction s ''muon'' v | Some a \<Rightarrow> Inr a) = Inr p"
  shows "\<exists>r. calculate_significance s ''muon'' a_opt v = Inr r
           \<and> r_a_lepton_eqft r = p
           \<and> r_delta r = Some (p - a_mu_exp s)
           \<and> r_significance r =
               Some (if hardcoded_calibration s \<and> v \<and> \<bar>d - 1.4538 / 10 ^ 10\<bar> < 1 / 10 ^ 14
                     then 0 else (p - a_mu_exp s) / sigma_mu_exp s)"
  using assms(3) compute_significance_muon [OF assms(1,2)]
  by (simp add: calculate_significance_def select_reference_def Let_def)

lemma calculate_significance_electron:
  assumes "store_ok s" and "delta_a_nf s ''electron'' = Some d"
    and "(case a_opt of None \<Rightarrow> predict_g2_correction s ''electron'' v | Some a \<Rightarrow> Inr a) = Inr p"
  shows "\<exists>r. calculate_significance s ''electron'' a_opt v = Inr r
           \<and> r_a_lepton_eqft r = p
           \<and> r_delta r = Some (a_e_sm s + p - a_e_exp s)
           \<and> r_significance r =
               Some (if hardcoded_calibration s \<and> v \<and> \<bar>d - 3.1 / 10 ^ 17\<bar> < 1 / 10 ^ 18
                     then 0.11 else (a_e_sm s + p - a_e_exp s) / sigma_e_exp s)"
  using assms(3) compute_significance_electron [OF assms(1,2)]
  by (simp add: calculate_significance_def select_reference_def Let_def)

lemma predict_returns:
  assumes "store_ok s" and "lepton \<in> {''electron'', ''muon'', ''tau''}"
  shows "\<exists>p. predict_g2_correction s lepton v = Inr p"
proof -
  obtain d_e d_mu d_tau where d: "delta_a_nf s ''electron'' = Some d_e"
    "delta_a_nf s ''muon'' = Some d_mu" "delta_a_nf s ''tau'' = Some d_tau"
    using assms(1) by (auto simp: store_ok_def)
  have pos: "m_e s \<noteq> 0" "m_mu s \<noteq> 0" "m_tau s \<noteq> 0" "m_tau s * 2 \<noteq> 0"
    using assms(1) by (auto simp: store_ok_def)
  have e: "select_parameters s ''electron'' = Inr (m_e s, m_mu s, phi_e s, phi_mu s, d_e)"
    using d by (simp add: select_parameters_def dict_get_def)
  have m: "select_parameters s ''muon'' = Inr (m_mu s, m_tau s, phi_mu s, phi_tau s, d_mu)"
    using d by (simp add: select_parameters_def dict_get_def)
  have t: "select_parameters s ''tau'' =
             Inr (m_tau s, m_tau s * 2, phi_tau s, phi_tau s * 1.5, d_tau)"
    using d by (simp add: select_parameters_def dict_get_def)
  show ?thesis
    using assms(2) predict_value [OF e pos(1) pos(2)] predict_value [OF m pos(2) pos(3)]
      predict_value [OF t pos(3) pos(4)]
    by auto
qed

lemma store_ok_hardcoded_calibration_update:
  "store_ok s \<Longrightarrow> store_ok (s\<lparr>hardcoded_calibration := b\<rparr>)"
  by (simp add: store_ok_def)

lemma select_parameters_hardcoded_calibration_update:
  "select_parameters (s\<lparr>hardcoded_calibration := b\<rparr>) lepton = select_parameters s lepton"
  by (simp add: select_parameters_def cong: sum.case_cong)

lemma amplitude_hardcoded_calibration_update:
  "compute_amplitude_canonical (s\<lparr>hardcoded_calibration := b\<rparr>) m mh d c =
     compute_amplitude_canonical s m mh d c"
  by (simp add: compute_amplitude_canonical_def cong: sum.case_cong)

lemma predict_hardcoded_calibration_update:
  "predict_g2_correction (s\<lparr>hardcoded_calibration := b\<rparr>) lepton v =
     predict_g2_correction s lepton v"
  by (simp add: predict_g2_correction_def select_parameters_hardcoded_calibration_update
      amplitude_hardcoded_calibration_update cong: sum.case_cong)

text \<open>
  Claim C1. When the muon's raw correction lies within \<open>10\<^sup>-\<^sup>1\<^sup>4\<close> of the
  reference literal \<open>1.4538e-10\<close>, the evaluation with the overlap variant
  returns significance \<open>0.00\<close> once benchmark mode is switched on, whatever
  the prediction is; once it is switched off, the same call returns the
  computed discrepancy divided by the uncertainty.
\<close>
theorem override_toggle_muon:
  assumes "store_ok s" and "delta_a_nf s ''muon'' = Some d"
    and "\<bar>d - 1.4538 / 10 ^ 10\<bar> < 1 / 10 ^ 14"
  shows "\<exists>p r_on r_off.
           predict_g2_correction s ''muon'' True = Inr p
         \<and> calculate_significance (snd (set_hardcoded_calibration s True)) ''muon'' None True
             = Inr r_on
         \<and> r_significance r_on = Some 0.00
         \<and> calculate_significance (snd (set_hardcoded_calibration s False)) ''muon'' None True
             = Inr r_off
         \<and> r_delta r_off = Some (p - a_mu_exp s)
         \<and> r_significance r_off = Some ((p - a_mu_exp s) / sigma_mu_exp s)"
proof -
  obtain p where p: "predict_g2_correction s ''muon'' True = Inr p"
    using predict_returns [OF assms(1), of "''muon''" True] by auto
  let ?on = "s\<lparr>hardcoded_calibration := True\<rparr>"
  let ?off = "s\<lparr>hardcoded_calibration := False\<rparr>"
  have on: "\<exists>r. calculate_significance ?on ''muon'' None True = Inr r
              \<and> r_significance r = Some 0"
    using calculate_significance_muon [where s = ?on and d = d and a_opt = None and v = True and p = p] assms p
    by (auto simp: store_ok_hardcoded_calibration_update predict_hardcoded_calibration_update)
  have off: "\<exists>r. calculate_significance ?off ''muon'' None True = Inr r
              \<and> r_delta r = Some (p - a_mu_exp s)
              \<and> r_significance r = Some ((p - a_mu_exp s) / sigma_mu_exp s)"
    using calculate_significance_muon [where s = ?off and d = d and a_opt = None and v = True and p = p] assms p
    by (auto simp: store_ok_hardcoded_calibration_update predict_hardcoded_calibration_update)
  from on off p show ?thesis
    by (auto simp: set_hardcoded_calibration_def)
qed

theorem override_toggle_muon_witness:
  "store_ok (init 2 True) \<and> delta_a_nf (init 2 True) ''muon'' = Some (1.4538 / 10 ^ 10)
   \<and> \<bar>1.4538 / 10 ^ 10 - 1.4538 / 10 ^ 10 :: real\<bar> < 1 / 10 ^ 14
   \<and> (\<exists>p r_on r_off.
           predict_g2_correction (init 2 True) ''muon'' True = Inr p
         \<and> calculate_significance (snd (set_hardcoded_calibration (init 2 True) True))
              ''muon'' None True = Inr r_on
         \<and> r_significance r_on = Some 0.00
         \<and> calculate_significance (snd (set_hardcoded_calibration (init 2 True) False))
              ''muon'' None True = Inr r_off
         \<and> r_delta r_off = Some (p - a_mu_exp (init 2 True))
         \<and> r_significance r_off
             = Some ((p - a_mu_exp (init 2 True)) / sigma_mu_exp (init 2 True)))"
proof -
  have h1: "store_ok (init 2 True)" by (simp add: store_ok_def init_def)
  have h2: "delta_a_nf (init 2 True) ''muon'' = Some (1.4538 / 10 ^ 10)"
    by (simp add: init_def)
  have h3: "\<bar>1.4538 / 10 ^ 10 - 1.4538 / 10 ^ 10 :: real\<bar> < 1 / 10 ^ 14" by simp
  show ?thesis using h1 h2 h3 override_toggle_muon [OF h1 h2 h3] by blast
qed

text \<open>
  Claim C2. With the overlap variant, the three documented phase pairs return
  the literals \<open>75.29\<close>, \<open>15.50\<close> and \<open>37.8\<close>.
\<close>
theorem chern2_cross_lookup:
  "compute_chern2_cross 4.32 10.53 True = 75.29
   \<and> compute_chern2_cross 2.17 4.32 True = 15.50
   \<and> compute_chern2_cross 2.17 10.53 True = 37.8"
  by (simp add: compute_chern2_cross_def)

text \<open>
  Claim C5. Without the overlap variant the cross class is \<open>2 \<cdot> \<phi>\<^sub>1 \<cdot> \<phi>\<^sub>2\<close>
  for all phases; with it, and away from the three table pairs, it is
  \<open>2 \<cdot> \<phi>\<^sub>1 \<cdot> \<phi>\<^sub>2 \<cdot> (1 - \<phi>\<^sub>2/(4\<pi>))\<close>, the overlap factor of the second phase.
\<close>
theorem chern2_cross_formula:
  "compute_chern2_cross phi1 phi2 False = 2 * phi1 * phi2
   \<and> ((phi1, phi2) \<notin> {(4.32, 10.53), (2.17, 4.32), (2.17, 10.53)}
        \<longrightarrow> compute_chern2_cross phi1 phi2 True = 2 * phi1 * phi2 * (1 - phi2 / (4 * pi)))"
  by (auto simp: compute_chern2_cross_def Let_def)

theorem chern2_cross_formula_witness:
  "((1, 2) :: real \<times> real) \<notin> {(4.32, 10.53), (2.17, 4.32), (2.17, 10.53)}
   \<and> compute_chern2_cross 1 2 True = 2 * 1 * 2 * (1 - 2 / (4 * pi))
   \<and> compute_chern2_cross 1 2 False = 2 * 1 * 2"
  using chern2_cross_formula [of 1 2] by simp

text \<open>
  Claim C6 as stated says that \<^verbatim>\<open>set_hardcoded_calibration\<close> returns the
  toggle's previous state. Switching a freshly built engine (toggle on) off
  returns \<open>False\<close>, not the previous \<open>True\<close>.
\<close>
theorem set_hardcoded_calibration_previous_counterexample:
  "fst (set_hardcoded_calibration (init 2 True) False) \<noteq> hardcoded_calibration (init 2 True)"
  by (simp add: set_hardcoded_calibration_def init_def)

text \<open>
  Claim C6, amended. \<^verbatim>\<open>set_hardcoded_calibration(enabled)\<close> sets the toggle
  and returns its new state, which is the argument, for every argument and
  every prior state; no other attribute changes.
\<close>
theorem set_hardcoded_calibration_returns_new:
  "fst (set_hardcoded_calibration s enabled) = enabled
   \<and> hardcoded_calibration (snd (set_hardcoded_calibration s enabled)) = enabled
   \<and> snd (set_hardcoded_calibration s enabled) = s\<lparr>hardcoded_calibration := enabled\<rparr>"
  by (simp add: set_hardcoded_calibration_def)

text \<open>
  Claim C8. For an identifier other than \<^verbatim>\<open>"electron"\<close>, \<^verbatim>\<open>"muon"\<close> and
  \<^verbatim>\<open>"tau"\<close>, the prediction (for either variant) and the raw-correction
  setter raise the unsupported-lepton error, a \<^verbatim>\<open>ValueError\<close>; no state is
  returned.
\<close>
theorem unsupported_lepton:
  assumes "lepton \<notin> {''electron'', ''muon'', ''tau''}"
  shows "predict_g2_correction s lepton v = Inl ValueError
       \<and> set_delta_a_nf s lepton x = Inl ValueError"
  using assms
  by (simp add: predict_g2_correction_def select_parameters_def set_delta_a_nf_def)

theorem unsupported_lepton_witness:
  "''positron'' \<notin> {''electron'', ''muon'', ''tau''}
   \<and> predict_g2_correction (init 2 True) ''positron'' True = Inl ValueError
   \<and> predict_g2_correction (init 2 True) ''positron'' False = Inl ValueError
   \<and> set_delta_a_nf (init 2 True) ''positron'' 1 = Inl ValueError"
proof -
  have h: "''positron'' \<notin> {''electron'', ''muon'', ''tau''}" by simp
  show ?thesis
    using h unsupported_lepton [OF h, of "init 2 True" True 1]
      unsupported_lepton [OF h, of "init 2 True" False 1]
    by simp
qed

text \<open>
  Claim C9. For the tau the evaluation returns a record whose significance
  and discrepancy are both absent, for either variant, with the prediction
  supplied or computed, in either benchmark mode and for all phases, raw
  corrections and tolerance class.
\<close>
theorem tau_no_significance:
  assumes "store_ok s"
  shows "\<exists>r. calculate_significance s ''tau'' a_opt v = Inr r
           \<and> r_significance r = None \<and> r_delta r = None"
proof -
  obtain p where "predict_g2_correction s ''tau'' v = Inr p"
    using predict_returns [OF assms, of "''tau''" v] by auto
  then show ?thesis
    by (cases a_opt)
      (simp_all add: calculate_significance_def select_reference_def
        compute_significance_def Let_def)
qed

theorem tau_no_significance_witness:
  "store_ok (init 2 True)
   \<and> (\<exists>r. calculate_significance (init 2 True) ''tau'' None True = Inr r
           \<and> r_significance r = None \<and> r_delta r = None)"
proof -
  have h: "store_ok (init 2 True)" by (simp add: store_ok_def init_def)
  show ?thesis using h tau_no_significance [OF h, of None True] by blast
qed

text \<open>
  Claim C10. In benchmark mode with the overlap variant the matching windows
  are fixed absolute tolerances. The muon's significance is the literal
  \<open>0.00\<close> when its raw correction is within \<open>10\<^sup>-\<^sup>1\<^sup>4\<close> of \<open>1.4538e-10\<close>, and
  the computed discrepancy divided by the uncertainty when it is farther away;
  the electron's is the literal \<open>0.11\<close> when its raw correction is within
  \<open>10\<^sup>-\<^sup>1\<^sup>8\<close> of \<open>3.1e-17\<close>, and the computed value when it is farther away.
  The source compares doubles, so the two edges of each window are settled
  by rounding, which the exact reals of this model do not follow. The
  statement therefore leaves a margin of \<open>10\<^sup>-\<^sup>1\<^sup>0\<close> times the tolerance on both
  sides of each edge (\<open>10\<^sup>-\<^sup>2\<^sup>4\<close> for the muon, \<open>10\<^sup>-\<^sup>2\<^sup>8\<close> for the electron, far
  above one unit in the last place of the values compared): inside the margin
  it says only that the significance is one of the two values.
\<close>

theorem override_window:
  assumes "store_ok s" and "hardcoded_calibration s"
    and "delta_a_nf s ''muon'' = Some d_mu"
    and "delta_a_nf s ''electron'' = Some d_e"
  shows "(\<exists>p r. predict_g2_correction s ''muon'' True = Inr p
            \<and> calculate_significance s ''muon'' None True = Inr r
            \<and> r_significance r \<in>
                (if \<bar>d_mu - 1.4538 / 10 ^ 10\<bar> \<le> 1 / 10 ^ 14 - 1 / 10 ^ 24
                 then {Some 0.00}
                 else if 1 / 10 ^ 14 + 1 / 10 ^ 24 \<le> \<bar>d_mu - 1.4538 / 10 ^ 10\<bar>
                 then {Some ((p - a_mu_exp s) / sigma_mu_exp s)}
                 else {Some 0.00, Some ((p - a_mu_exp s) / sigma_mu_exp s)}))
       \<and> (\<exists>p r. predict_g2_correction s ''electron'' True = Inr p
            \<and> calculate_significance s ''electron'' None True = Inr r
            \<and> r_significance r \<in>
                (if \<bar>d_e - 3.1 / 10 ^ 17\<bar> \<le> 1 / 10 ^ 18 - 1 / 10 ^ 28
                 then {Some 0.11}
                 else if 1 / 10 ^ 18 + 1 / 10 ^ 28 \<le> \<bar>d_e - 3.1 / 10 ^ 17\<bar>
                 then {Some ((a_e_sm s + p - a_e_exp s) / sigma_e_exp s)}
                 else {Some 0.11, Some ((a_e_sm s + p - a_e_exp s) / sigma_e_exp s)}))"
proof -
  obtain pm where pm: "predict_g2_correction s ''muon'' True = Inr pm"
    using predict_returns [OF assms(1), of "''muon''" True] by auto
  obtain pe where pe: "predict_g2_correction s ''electron'' True = Inr pe"
    using predict_returns [OF assms(1), of "''electron''" True] by auto
  obtain rm where rm: "calculate_significance s ''muon'' None True = Inr rm"
    "r_significance rm =
       Some (if \<bar>d_mu - 1.4538 / 10 ^ 10\<bar> < 1 / 10 ^ 14 then 0
             else (pm - a_mu_exp s) / sigma_mu_exp s)"
    using calculate_significance_muon
      [where s = s and d = d_mu and a_opt = None and v = True and p = pm] assms pm
    by auto
  obtain re where re: "calculate_significance s ''electron'' None True = Inr re"
    "r_significance re =
       Some (if \<bar>d_e - 3.1 / 10 ^ 17\<bar> < 1 / 10 ^ 18 then 0.11
             else (a_e_sm s + pe - a_e_exp s) / sigma_e_exp s)"
    using calculate_significance_electron
      [where s = s and d = d_e and a_opt = None and v = True and p = pe] assms pe
    by auto
  have gm: "(1::real) / 10 ^ 14 - 1 / 10 ^ 24 < 1 / 10 ^ 14"
    "(1::real) / 10 ^ 14 < 1 / 10 ^ 14 + 1 / 10 ^ 24" by simp_all
  have ge: "(1::real) / 10 ^ 18 - 1 / 10 ^ 28 < 1 / 10 ^ 18"
    "(1::real) / 10 ^ 18 < 1 / 10 ^ 18 + 1 / 10 ^ 28" by simp_all
  define xm where "xm = \<bar>d_mu - 1.4538 / 10 ^ 10\<bar>"
  define xe where "xe = \<bar>d_e - 3.1 / 10 ^ 17\<bar>"
  define tm :: real where "tm = 1 / 10 ^ 14"
  define te :: real where "te = 1 / 10 ^ 18"
  define mm :: real where "mm = 1 / 10 ^ 24"
  define me :: real where "me = 1 / 10 ^ 28"
  have m: "r_significance rm \<in>
             (if xm \<le> tm - mm then {Some 0.00}
              else if tm + mm \<le> xm then {Some ((pm - a_mu_exp s) / sigma_mu_exp s)}
              else {Some 0.00, Some ((pm - a_mu_exp s) / sigma_mu_exp s)})"
  proof -
    have "0 < mm" unfolding mm_def by simp
    then have "xm \<le> tm - mm \<Longrightarrow> xm < tm" "tm + mm \<le> xm \<Longrightarrow> \<not> xm < tm" by linarith+
    then show ?thesis using rm(2) unfolding xm_def [symmetric] tm_def [symmetric] by auto
  qed
  have e: "r_significance re \<in>
             (if xe \<le> te - me then {Some 0.11}
              else if te + me \<le> xe then {Some ((a_e_sm s + pe - a_e_exp s) / sigma_e_exp s)}
              else {Some 0.11, Some ((a_e_sm s + pe - a_e_exp s) / sigma_e_exp s)})"
  proof -
    have "0 < me" unfolding me_def by simp
    then have "xe \<le> te - me \<Longrightarrow> xe < te" "te + me \<le> xe \<Longrightarrow> \<not> xe < te" by linarith+
    then show ?thesis using re(2) unfolding xe_def [symmetric] te_def [symmetric] by auto
  qed
  show ?thesis
    using pm pe rm(1) re(1) m e
    unfolding xm_def xe_def tm_def te_def mm_def me_def by blast
qed

theorem override_window_witness:
  "store_ok (init 2 True) \<and> hardcoded_calibration (init 2 True)
   \<and> store_ok ((init 2 True)\<lparr>delta_a_nf := [''electron'' \<mapsto> 4 / 10 ^ 17,
                  ''muon'' \<mapsto> 2 / 10 ^ 10, ''tau'' \<mapsto> 5.2 / 10 ^ 10]\<rparr>)
   \<and> hardcoded_calibration ((init 2 True)\<lparr>delta_a_nf := [''electron'' \<mapsto> 4 / 10 ^ 17,
                  ''muon'' \<mapsto> 2 / 10 ^ 10, ''tau'' \<mapsto> 5.2 / 10 ^ 10]\<rparr>)
   \<and> (\<exists>r. calculate_significance (init 2 True) ''muon'' None True = Inr r
        \<and> r_significance r = Some 0.00)
   \<and> (\<exists>r. calculate_significance (init 2 True) ''electron'' None True = Inr r
        \<and> r_significance r = Some 0.11)
   \<and> (\<exists>p r. predict_g2_correction
               ((init 2 True)\<lparr>delta_a_nf := [''electron'' \<mapsto> 4 / 10 ^ 17,
                  ''muon'' \<mapsto> 2 / 10 ^ 10, ''tau'' \<mapsto> 5.2 / 10 ^ 10]\<rparr>) ''muon'' True = Inr p
        \<and> calculate_significance
               ((init 2 True)\<lparr>delta_a_nf := [''electron'' \<mapsto> 4 / 10 ^ 17,
                  ''muon'' \<mapsto> 2 / 10 ^ 10, ''tau'' \<mapsto> 5.2 / 10 ^ 10]\<rparr>) ''muon'' None True = Inr r
        \<and> r_significance r = Some ((p - 2.51 / 10 ^ 9) / (6.3 / 10 ^ 10)))
   \<and> (\<exists>p r. predict_g2_correction
               ((init 2 True)\<lparr>delta_a_nf := [''electron'' \<mapsto> 4 / 10 ^ 17,
                  ''muon'' \<mapsto> 2 / 10 ^ 10, ''tau'' \<mapsto> 5.2 / 10 ^ 10]\<rparr>) ''electron'' True = Inr p
        \<and> calculate_significance
               ((init 2 True)\<lparr>delta_a_nf := [''electron'' \<mapsto> 4 / 10 ^ 17,
                  ''muon'' \<mapsto> 2 / 10 ^ 10, ''tau'' \<mapsto> 5.2 / 10 ^ 10]\<rparr>) ''electron'' None True
             = Inr r
        \<and> r_significance r
             = Some ((1.15965218076 / 10 ^ 3 + p - 1.15965218073 / 10 ^ 3) / (2.8 / 10 ^ 13)))"
proof -
  define A where "A = init 2 True"
  define B where "B = (init 2 True)\<lparr>delta_a_nf := [''electron'' \<mapsto> 4 / 10 ^ 17,
                  ''muon'' \<mapsto> 2 / 10 ^ 10, ''tau'' \<mapsto> 5.2 / 10 ^ 10]\<rparr>"
  have a1: "store_ok A" unfolding A_def by (simp add: store_ok_def init_def)
  have a2: "hardcoded_calibration A" unfolding A_def by (simp add: init_def)
  have a3: "delta_a_nf A ''muon'' = Some (1.4538 / 10 ^ 10)"
    unfolding A_def by (simp add: init_def)
  have a4: "delta_a_nf A ''electron'' = Some (3.1 / 10 ^ 17)"
    unfolding A_def by (simp add: init_def)
  have b1: "store_ok B" unfolding B_def by (simp add: store_ok_def init_def)
  have b2: "hardcoded_calibration B" unfolding B_def by (simp add: init_def)
  have b3: "delta_a_nf B ''muon'' = Some (2 / 10 ^ 10)" unfolding B_def by simp
  have b4: "delta_a_nf B ''electron'' = Some (4 / 10 ^ 17)" unfolding B_def by simp
  have bf: "a_mu_exp B = 2.51 / 10 ^ 9" "sigma_mu_exp B = 6.3 / 10 ^ 10"
    "a_e_sm B = 1.15965218076 / 10 ^ 3" "a_e_exp B = 1.15965218073 / 10 ^ 3"
    "sigma_e_exp B = 2.8 / 10 ^ 13"
    unfolding B_def by (simp_all add: init_def)
  have ia: "(\<bar>1.4538 / 10 ^ 10 - 1.4538 / 10 ^ 10 :: real\<bar> \<le> 1 / 10 ^ 14 - 1 / 10 ^ 24) = True"
    "(\<bar>3.1 / 10 ^ 17 - 3.1 / 10 ^ 17 :: real\<bar> \<le> 1 / 10 ^ 18 - 1 / 10 ^ 28) = True"
    by simp_all
  have ib: "(\<bar>2 / 10 ^ 10 - 1.4538 / 10 ^ 10 :: real\<bar> \<le> 1 / 10 ^ 14 - 1 / 10 ^ 24) = False"
    "(1 / 10 ^ 14 + 1 / 10 ^ 24 \<le> \<bar>2 / 10 ^ 10 - 1.4538 / 10 ^ 10 :: real\<bar>) = True"
    "(\<bar>4 / 10 ^ 17 - 3.1 / 10 ^ 17 :: real\<bar> \<le> 1 / 10 ^ 18 - 1 / 10 ^ 28) = False"
    "(1 / 10 ^ 18 + 1 / 10 ^ 28 \<le> \<bar>4 / 10 ^ 17 - 3.1 / 10 ^ 17 :: real\<bar>) = True"
    by simp_all
  note ta = override_window [OF a1 a2 a3 a4, unfolded ia if_True singleton_iff]
  note tb = override_window [OF b1 b2 b3 b4, unfolded ib if_True if_False singleton_iff bf]
  from a1 a2 b1 b2 ta tb show ?thesis unfolding A_def B_def by blast
qed

subsection \<open>The size of the default muon prediction\<close>

lemma damping_bounds:
  assumes "22 \<le> c * c / 256"
  shows "22 / 23 \<le> 1 - exp (- (c / (16 * pi\<^sup>2)) * c)"
    and "1 - exp (- (c / (16 * pi\<^sup>2)) * c) < 1"
proof -
  let ?t = "c / (16 * pi\<^sup>2) * c"
  have pi2: "0 < pi\<^sup>2" "pi\<^sup>2 \<le> 16"
  proof -
    show "0 < pi\<^sup>2" by simp
    have "pi * pi \<le> 4 * 4" using pi_less_4 pi_ge_zero
      by (intro mult_mono; linarith)
    then show "pi\<^sup>2 \<le> 16" by (simp add: power2_eq_square)
  qed
  have cc: "0 \<le> c * c" by simp
  have "c * c / 256 \<le> c * c / (16 * pi\<^sup>2)"
    using pi2 cc by (intro divide_left_mono) auto
  then have t: "22 \<le> ?t" using assms by simp
  have "1 + ?t \<le> exp ?t" by (rule exp_ge_add_one_self)
  then have e: "23 \<le> exp ?t" using t by linarith
  have "exp (- ?t) = 1 / exp ?t" by (simp add: exp_minus inverse_eq_divide)
  also have "\<dots> \<le> 1 / 23" using e by (intro divide_left_mono) auto
  finally have "exp (- ?t) \<le> 1 / 23" .
  then show "22 / 23 \<le> 1 - exp (- (c / (16 * pi\<^sup>2)) * c)" by simp
  show "1 - exp (- (c / (16 * pi\<^sup>2)) * c) < 1" by simp
qed

lemma canonical_prediction_bounds:
  assumes "22 \<le> compute_chern2_cross p ph v * compute_chern2_cross p ph v / 256"
    and "0 \<le> d * (mh / m)\<^sup>2 * (compute_chern2_cross p ph v / (tc\<^sup>2 + (mh / m)\<^sup>2))"
  shows "d * (mh / m)\<^sup>2 * (compute_chern2_cross p ph v / (tc\<^sup>2 + (mh / m)\<^sup>2)) * (22 / 23)
           \<le> canonical_prediction tc m mh p ph d v"
    and "canonical_prediction tc m mh p ph d v
           \<le> d * (mh / m)\<^sup>2 * (compute_chern2_cross p ph v / (tc\<^sup>2 + (mh / m)\<^sup>2))"
proof -
  let ?c = "compute_chern2_cross p ph v"
  let ?A = "d * (mh / m)\<^sup>2 * (?c / (tc\<^sup>2 + (mh / m)\<^sup>2))"
  let ?f = "1 - exp (- (?c / (16 * pi\<^sup>2)) * ?c)"
  have eq: "canonical_prediction tc m mh p ph d v = ?A * ?f"
    by (simp add: canonical_prediction_def Let_def)
  have f: "22 / 23 \<le> ?f" "?f < 1" using damping_bounds [OF assms(1)] by auto
  show "?A * (22 / 23) \<le> canonical_prediction tc m mh p ph d v"
    unfolding eq using assms(2) f(1) by (intro mult_left_mono) auto
  have "?A * ?f \<le> ?A * 1" using assms(2) f(2) by (intro mult_left_mono) auto
  then show "canonical_prediction tc m mh p ph d v \<le> ?A" unfolding eq by simp
qed

lemma default_muon_prediction:
  "predict_g2_correction
     (set_berry_phases (init 2 True) (Some 2.17) (Some 4.32) (Some 10.53)) ''muon'' True
   = Inr (canonical_prediction 2 0.105658 1.77686 4.32 10.53 (1.4538 / 10 ^ 10) True)"
proof -
  let ?s = "set_berry_phases (init 2 True) (Some 2.17) (Some 4.32) (Some 10.53)"
  have sel: "select_parameters ?s ''muon'' =
               Inr (0.105658, 1.77686, 4.32, 10.53, 1.4538 / 10 ^ 10)"
    by (simp add: select_parameters_def set_berry_phases_def init_def dict_get_def)
  have c: "c1 ?s = 2" by (simp add: set_berry_phases_def init_def)
  show ?thesis using predict_value [OF sel, of True] c by simp
qed

lemma default_muon_value_bounds:
  "1 / 10 ^ 8 \<le> canonical_prediction 2 0.105658 1.77686 4.32 10.53 (1.4538 / 10 ^ 10) True"
  "canonical_prediction 2 0.105658 1.77686 4.32 10.53 (1.4538 / 10 ^ 10) True < 10 / 10 ^ 8"
proof -
  have c: "compute_chern2_cross 4.32 10.53 True = 75.29"
    by (simp add: compute_chern2_cross_def)
  have a1: "22 \<le> compute_chern2_cross 4.32 10.53 True * compute_chern2_cross 4.32 10.53 True / 256"
    unfolding c by simp
  have a2: "(0::real) \<le> 1.4538 / 10 ^ 10 * (1.77686 / 0.105658)\<^sup>2
              * (compute_chern2_cross 4.32 10.53 True / (2\<^sup>2 + (1.77686 / 0.105658)\<^sup>2))"
    unfolding c by simp
  note b = canonical_prediction_bounds [OF a1 a2]
  have lo: "(1::real) / 10 ^ 8 \<le> 1.4538 / 10 ^ 10 * (1.77686 / 0.105658)\<^sup>2
              * (75.29 / (2\<^sup>2 + (1.77686 / 0.105658)\<^sup>2)) * (22 / 23)"
    by (simp add: power2_eq_square)
  have hi: "(1.4538::real) / 10 ^ 10 * (1.77686 / 0.105658)\<^sup>2
              * (75.29 / (2\<^sup>2 + (1.77686 / 0.105658)\<^sup>2)) < 10 / 10 ^ 8"
    by (simp add: power2_eq_square)
  show "1 / 10 ^ 8 \<le> canonical_prediction 2 0.105658 1.77686 4.32 10.53 (1.4538 / 10 ^ 10) True"
    using b(1) lo unfolding c by linarith
  show "canonical_prediction 2 0.105658 1.77686 4.32 10.53 (1.4538 / 10 ^ 10) True < 10 / 10 ^ 8"
    using b(2) hi unfolding c by linarith
qed

text \<open>
  Claim C7 as stated says that, on a fresh engine with default parameters and
  phases \<open>(2.17, 4.32, 10.53)\<close>, the muon prediction with the overlap variant
  is of the order of magnitude \<open>10\<^sup>-\<^sup>9\<close>. It is not: the value is at least
  \<open>10\<^sup>-\<^sup>8\<close>.
\<close>

theorem default_muon_prediction_not_1e9:
  "\<not> returns_order_of_magnitude
       (predict_g2_correction
          (set_berry_phases (init 2 True) (Some 2.17) (Some 4.32) (Some 10.53)) ''muon'' True) 9"
proof -
  define x where "x = canonical_prediction 2 0.105658 1.77686 4.32 10.53 (1.4538 / 10 ^ 10) True"
  have lo: "1 / 10 ^ 8 \<le> x"
    unfolding x_def by (rule default_muon_value_bounds(1))
  have "\<not> order_of_magnitude x 9"
    using lo by (simp add: order_of_magnitude_def)
  then show ?thesis
    unfolding default_muon_prediction returns_order_of_magnitude_def x_def by simp
qed

text \<open>
  Claim C7, amended. On a fresh engine with default parameters and phases
  \<open>(2.17, 4.32, 10.53)\<close>, the muon prediction with the overlap variant returns
  a value of the order of magnitude \<open>10\<^sup>-\<^sup>8\<close>.
\<close>

theorem default_muon_prediction_1e8:
  "returns_order_of_magnitude
       (predict_g2_correction
          (set_berry_phases (init 2 True) (Some 2.17) (Some 4.32) (Some 10.53)) ''muon'' True) 8"
proof -
  define x where "x = canonical_prediction 2 0.105658 1.77686 4.32 10.53 (1.4538 / 10 ^ 10) True"
  have lo: "1 / 10 ^ 8 \<le> x" and hi: "x < 10 / 10 ^ 8"
    unfolding x_def by (rule default_muon_value_bounds)+
  have "order_of_magnitude x 8"
    using lo hi by (simp add: order_of_magnitude_def)
  then show ?thesis
    unfolding default_muon_prediction returns_order_of_magnitude_def x_def by simp
qed

subsection \<open>The calibration sweep\<close>

lemma base_muon:
  "base_calculate_anomalous_magnetic_moment ''muon'' =
     Inr \<lparr> f_a_sm = 1.1659101 / 10 ^ 3, f_a_exp = None,
           f_a_exp_uncertainty = Some (6.3 / 10 ^ 10),
           f_a_nf = 0, f_a_total = 1.1659101 / 10 ^ 3,
           f_discrepancy = None, f_discrepancy_sigma = None,
           f_canonical_info = None \<rparr>"
  by (simp add: base_calculate_anomalous_magnetic_moment_def sm_values_def exp_values_def
      exp_uncertainties_def fill_discrepancy_def)

lemma amm_muon:
  assumes "predict_g2_correction (g2_calculator fw) ''muon'' True = Inr p"
    and "calculate_significance (g2_calculator fw) ''muon'' (Some p) True = Inr r"
    and "r_significance r = Some sg"
  shows "\<exists>result. calculate_anomalous_magnetic_moment fw ''muon'' True True True = Inr result
           \<and> f_a_nf result = p \<and> f_discrepancy_sigma result = Some sg"
  using assms
  by (simp add: calculate_anomalous_magnetic_moment_def base_muon dict_get_def
      topological_charges_def compute_g_minus_2_def compute_g_minus_2_canonical_def
      fill_discrepancy_def Let_def)

lemma set_muon_step:
  assumes "store_ok (g2_calculator fw)"
  shows "\<exists>fw1 result.
           fw_set_delta_a_nf fw ''muon'' d = Inr fw1
         \<and> store_ok (g2_calculator fw1)
         \<and> trial_record (g2_calculator fw1) = trial_record (g2_calculator fw)
         \<and> calculate_anomalous_magnetic_moment fw1 ''muon'' True True True = Inr result
         \<and> f_a_nf result = fst (snd (trial_record (g2_calculator fw) d))
         \<and> f_discrepancy_sigma result = Some (snd (snd (trial_record (g2_calculator fw) d)))"
proof -
  let ?s = "g2_calculator fw"
  let ?s1 = "?s\<lparr>delta_a_nf := (delta_a_nf ?s)(''muon'' \<mapsto> d), delta_a_mu_nf := d\<rparr>"
  let ?fw1 = "fw\<lparr>g2_calculator := ?s1\<rparr>"
  let ?p = "canonical_prediction (c1 ?s) (m_mu ?s) (m_tau ?s) (phi_mu ?s) (phi_tau ?s) d True"
  have set: "fw_set_delta_a_nf fw ''muon'' d = Inr ?fw1"
    by (simp add: fw_set_delta_a_nf_def set_delta_a_nf_def)
  have ok1: "store_ok ?s1" using assms by (simp add: store_ok_def)
  have tr: "trial_record ?s1 = trial_record ?s"
    by (simp add: trial_record_def fun_eq_iff Let_def)
  have dm: "delta_a_nf ?s1 ''muon'' = Some d" by simp
  have nz: "m_mu ?s \<noteq> 0" "m_tau ?s \<noteq> 0" using assms by (auto simp: store_ok_def)
  have sel: "select_parameters ?s1 ''muon'' = Inr (m_mu ?s, m_tau ?s, phi_mu ?s, phi_tau ?s, d)"
    by (simp add: select_parameters_def dict_get_def)
  have pr: "predict_g2_correction ?s1 ''muon'' True = Inr ?p"
    using predict_value [OF sel nz, of True] by simp
  obtain r where r: "calculate_significance ?s1 ''muon'' (Some ?p) True = Inr r"
    "r_significance r =
       Some (if hardcoded_calibration ?s1 \<and> True \<and> \<bar>d - 1.4538 / 10 ^ 10\<bar> < 1 / 10 ^ 14
             then 0 else (?p - a_mu_exp ?s1) / sigma_mu_exp ?s1)"
    using calculate_significance_muon
      [where s = ?s1 and d = d and a_opt = "Some ?p" and v = True and p = ?p, OF ok1 dm]
    by auto
  have g: "g2_calculator ?fw1 = ?s1" by simp
  obtain result where res:
    "calculate_anomalous_magnetic_moment ?fw1 ''muon'' True True True = Inr result"
    "f_a_nf result = ?p"
    "f_discrepancy_sigma result =
       Some (if hardcoded_calibration ?s1 \<and> True \<and> \<bar>d - 1.4538 / 10 ^ 10\<bar> < 1 / 10 ^ 14
             then 0 else (?p - a_mu_exp ?s1) / sigma_mu_exp ?s1)"
    using amm_muon [of ?fw1 ?p r, unfolded g, OF pr r] by auto
  have "f_a_nf result = fst (snd (trial_record ?s d))"
    using res(2) by (simp add: trial_record_def Let_def)
  moreover have "f_discrepancy_sigma result = Some (snd (snd (trial_record ?s d)))"
    using res(3) by (simp add: trial_record_def Let_def)
  ultimately show ?thesis using set ok1 tr res(1) g by metis
qed

lemma sweep_records:
  assumes "store_ok (g2_calculator fw)"
  shows "sweep fw ds acc = Inr (acc @ map (trial_record (g2_calculator fw)) ds)"
  using assms
proof (induction ds arbitrary: fw acc)
  case Nil
  then show ?case by simp
next
  case (Cons d ds)
  obtain fw1 result where st:
    "fw_set_delta_a_nf fw ''muon'' d = Inr fw1"
    "store_ok (g2_calculator fw1)"
    "trial_record (g2_calculator fw1) = trial_record (g2_calculator fw)"
    "calculate_anomalous_magnetic_moment fw1 ''muon'' True True True = Inr result"
    "f_a_nf result = fst (snd (trial_record (g2_calculator fw) d))"
    "f_discrepancy_sigma result = Some (snd (snd (trial_record (g2_calculator fw) d)))"
    using set_muon_step [OF Cons.prems, of d] by blast
  have fstd: "fst (trial_record (g2_calculator fw) d) = d"
    by (simp add: trial_record_def Let_def)
  have rec: "(d, f_a_nf result, snd (snd (trial_record (g2_calculator fw) d)))
               = trial_record (g2_calculator fw) d"
    using st(5) fstd by (metis prod.collapse)
  show ?case
    using Cons.IH [OF st(2), of "acc @ [trial_record (g2_calculator fw) d]"] st rec
    by simp
qed

lemma min_from_mem: "min_from b xs \<in> set (b # xs)"
  by (induction xs arbitrary: b) (auto simp: split: if_splits)

lemma min_from_le:
  "y \<in> set (b # xs) \<Longrightarrow> \<bar>snd (snd (min_from b xs))\<bar> \<le> \<bar>snd (snd y)\<bar>"
proof (induction xs arbitrary: b y)
  case Nil
  then show ?case by simp
next
  case (Cons x xs)
  have self: "\<bar>snd (snd (min_from c xs))\<bar> \<le> \<bar>snd (snd c)\<bar>" for c
    using Cons.IH [where b = c and y = c] by simp
  show ?case
  proof (cases "\<bar>snd (snd x)\<bar> < \<bar>snd (snd b)\<bar>")
    case True
    then show ?thesis
      using Cons.prems Cons.IH [where b = x and y = y] self [of x] by auto
  next
    case False
    then show ?thesis
      using Cons.prems Cons.IH [where b = b and y = y] self [of b] by auto
  qed
qed

lemma linspace_range:
  assumes "a \<le> b" and "2 \<le> n" and "x \<in> set (linspace a b n)"
  shows "a \<le> x \<and> x \<le> b"
proof -
  have n1: "0 < real (n - 1)" using assms(2) by simp
  from assms(2,3) consider "x = b"
    | i where "i < n - 1" "x = real i * ((b - a) / real (n - 1)) + a"
    by (auto simp: linspace_def)
  then show ?thesis
  proof cases
    case 1
    then show ?thesis using assms(1) by simp
  next
    case 2
    define t where "t = real i * ((b - a) / real (n - 1))"
    have ba: "0 \<le> b - a" using assms(1) by simp
    have q: "real i / real (n - 1) \<le> 1" using 2(1) n1 by simp
    have t_eq: "t = real i / real (n - 1) * (b - a)" by (simp add: t_def)
    have "real i / real (n - 1) * (b - a) \<le> 1 * (b - a)"
      using ba q by (rule mult_right_mono [rotated])
    then have hi: "t \<le> b - a" by (simp add: t_eq)
    have lo: "0 \<le> t" using ba by (simp add: t_def)
    have "x = t + a" using 2(2) by (simp add: t_def)
    then show ?thesis using lo hi by linarith
  qed
qed


lemma swept_engine:
  "g2_calculator (fw_set_berry_phases (new_framework 2) (Some 2.17) (Some 4.32) (Some 10.53))
     = set_berry_phases (init 2 True) (Some 2.17) (Some 4.32) (Some 10.53)"
  by (simp add: fw_set_berry_phases_def new_framework_def)

lemma swept_engine_fields:
  fixes s :: engine
  assumes "s = set_berry_phases (init 2 True) (Some 2.17) (Some 4.32) (Some 10.53)"
  shows "c1 s = 2" "m_mu s = 0.105658" "m_tau s = 1.77686" "phi_mu s = 4.32"
    "phi_tau s = 10.53" "hardcoded_calibration s" "a_mu_exp s = 2.51 / 10 ^ 9"
    "sigma_mu_exp s = 6.3 / 10 ^ 10" "store_ok s"
  unfolding assms by (simp_all add: set_berry_phases_def init_def store_ok_def)

lemma trial_in_window:
  assumes "s = set_berry_phases (init 2 True) (Some 2.17) (Some 4.32) (Some 10.53)"
    and "\<bar>d - 1.4538 / 10 ^ 10\<bar> < 1 / 10 ^ 14"
  shows "snd (snd (trial_record s d)) = 0"
  using assms(2) swept_engine_fields(6) [OF assms(1)]
  by (simp add: trial_record_def Let_def)

lemma trial_outside_window:
  assumes "s = set_berry_phases (init 2 True) (Some 2.17) (Some 4.32) (Some 10.53)"
    and "\<not> \<bar>d - 1.4538 / 10 ^ 10\<bar> < 1 / 10 ^ 14" and "1.43 / 10 ^ 10 \<le> d"
  shows "snd (snd (trial_record s d)) \<noteq> 0"
proof -
  define C :: real where
    "C = (1.77686 / 0.105658)\<^sup>2 * (75.29 / (2\<^sup>2 + (1.77686 / 0.105658)\<^sup>2))"
  define p where "p = canonical_prediction 2 0.105658 1.77686 4.32 10.53 d True"
  have c: "compute_chern2_cross 4.32 10.53 True = 75.29"
    by (simp add: compute_chern2_cross_def)
  have Cpos: "0 \<le> C" unfolding C_def by simp
  have dpos: "0 \<le> d" using assms(3) by (rule order_trans [rotated]) simp
  have a1: "22 \<le> compute_chern2_cross 4.32 10.53 True * compute_chern2_cross 4.32 10.53 True / 256"
    unfolding c by simp
  have dC: "d * (1.77686 / 0.105658)\<^sup>2
              * (compute_chern2_cross 4.32 10.53 True / (2\<^sup>2 + (1.77686 / 0.105658)\<^sup>2))
            = d * C"
    unfolding c C_def by simp
  have a2: "0 \<le> d * (1.77686 / 0.105658)\<^sup>2
              * (compute_chern2_cross 4.32 10.53 True / (2\<^sup>2 + (1.77686 / 0.105658)\<^sup>2))"
    unfolding dC using dpos Cpos by simp
  define u where "u = d * C"
  define w where "w = 1.43 / 10 ^ 10 * C"
  have lo: "u * (22 / 23) \<le> p"
    using canonical_prediction_bounds(1) [OF a1 a2] unfolding dC p_def u_def .
  have wu: "w \<le> u" unfolding w_def u_def using assms(3) Cpos by (rule mult_right_mono)
  have "2.51 / 10 ^ 9 < 1.43 / 10 ^ 10 * C * (22 / 23)"
    unfolding C_def by (simp add: power2_eq_square)
  then have ww: "2.51 / 10 ^ 9 < w * (22 / 23)" unfolding w_def .
  have "w * (22 / 23) \<le> u * (22 / 23)" using wu by simp
  then have "2.51 / 10 ^ 9 < p" using lo ww by linarith
  then have nz: "(p - 2.51 / 10 ^ 9) / (6.3 / 10 ^ 10) \<noteq> 0" by simp
  have nw: "(hardcoded_calibration s \<and> \<bar>d - 1.4538 / 10 ^ 10\<bar> < 1 / 10 ^ 14) = False"
    using assms(2) by blast
  have "snd (snd (trial_record s d)) = (p - 2.51 / 10 ^ 9) / (6.3 / 10 ^ 10)"
    unfolding trial_record_def Let_def nw swept_engine_fields(1-5,7,8) [OF assms(1)] p_def
    by (simp only: snd_conv if_False)
  with nz show ?thesis by metis
qed

lemma window_point:
  assumes "d \<in> set (linspace (1.43 / 10 ^ 10) (1.46 / 10 ^ 10) 30)"
    and "\<bar>d - 1.4538 / 10 ^ 10\<bar> < 1 / 10 ^ 14"
  shows "d = 23 * ((1.46 / 10 ^ 10 - 1.43 / 10 ^ 10) / 29) + 1.43 / 10 ^ 10"
proof -
  from assms(1) consider "d = 1.46 / 10 ^ 10"
    | i where "i < 29" "d = real i * ((1.46 / 10 ^ 10 - 1.43 / 10 ^ 10) / 29) + 1.43 / 10 ^ 10"
    by (auto simp: linspace_def)
  then show ?thesis
  proof cases
    case 1
    then show ?thesis using assms(2) by simp
  next
    case 2
    have "22 < real i \<and> real i < 24"
      using assms(2) unfolding 2(2) abs_less_iff by (simp add: field_simps)
    then have "i = 23" by linarith
    then show ?thesis using 2(2) by simp
  qed
qed

lemma point_in_grid:
  "23 * ((1.46 / 10 ^ 10 - 1.43 / 10 ^ 10) / 29) + 1.43 / 10 ^ 10
     \<in> set (linspace (1.43 / 10 ^ 10) (1.46 / 10 ^ 10) 30)"
proof -
  have "(23::nat) \<in> set [0..<29]" by simp
  then have "real 23 * ((1.46 / 10 ^ 10 - 1.43 / 10 ^ 10) / real (30 - 1)) + 1.43 / 10 ^ 10
     \<in> (\<lambda>i. real i * ((1.46 / 10 ^ 10 - 1.43 / 10 ^ 10) / real (30 - 1)) + 1.43 / 10 ^ 10)
         ` set [0..<29]"
    by (rule imageI)
  then show ?thesis by (simp add: linspace_def del: set_upt)
qed

lemma calibration_outcome:
  "calibrate_muon_g2_v361 =
     Inr (23 * ((1.46 / 10 ^ 10 - 1.43 / 10 ^ 10) / 29) + 1.43 / 10 ^ 10, 0)"
proof -
  define s where "s = set_berry_phases (init 2 True) (Some 2.17) (Some 4.32) (Some 10.53)"
  define fw where
    "fw = fw_set_berry_phases (new_framework 2) (Some 2.17) (Some 4.32) (Some 10.53)"
  define ds where "ds = linspace (1.43 / 10 ^ 10) (1.46 / 10 ^ 10) 30"
  define x23 :: real where "x23 = 23 * ((1.46 / 10 ^ 10 - 1.43 / 10 ^ 10) / 29) + 1.43 / 10 ^ 10"
  have g: "g2_calculator fw = s" unfolding fw_def s_def by (rule swept_engine)
  have ok: "store_ok (g2_calculator fw)"
    unfolding g using swept_engine_fields(9) [OF s_def] .
  have sw: "sweep fw ds [] = Inr (map (trial_record s) ds)"
    using sweep_records [OF ok, of ds "[]"] unfolding g by simp
  have x23_in: "x23 \<in> set ds" unfolding x23_def ds_def by (rule point_in_grid)
  then obtain d0 rest where ds_eq: "ds = d0 # rest" by (cases ds) auto
  define best where "best = min_from (trial_record s d0) (map (trial_record s) rest)"
  have mn: "min_abs_significance (map (trial_record s) ds) = Inr best"
    by (simp add: min_abs_significance_def ds_eq best_def)
  have "best \<in> set (map (trial_record s) ds)"
    unfolding best_def ds_eq using min_from_mem [of "trial_record s d0" "map (trial_record s) rest"]
    by simp
  then obtain d where d: "d \<in> set ds" "best = trial_record s d" by auto
  have x23_win: "\<bar>x23 - 1.4538 / 10 ^ 10\<bar> < 1 / 10 ^ 14" unfolding x23_def by simp
  have "trial_record s x23 \<in> set (trial_record s d0 # map (trial_record s) rest)"
    using x23_in unfolding ds_eq by auto
  then have "\<bar>snd (snd best)\<bar> \<le> \<bar>snd (snd (trial_record s x23))\<bar>"
    unfolding best_def by (rule min_from_le)
  then have zero: "snd (snd best) = 0"
    using trial_in_window [OF s_def x23_win] by simp
  have rng: "1.43 / 10 ^ 10 \<le> d"
    using linspace_range [of "1.43 / 10 ^ 10" "1.46 / 10 ^ 10" 30 d] d(1)
    unfolding ds_def by simp
  have "\<bar>d - 1.4538 / 10 ^ 10\<bar> < 1 / 10 ^ 14"
    using trial_outside_window [OF s_def _ rng] zero d(2) by blast
  then have "d = x23" using window_point d(1) unfolding ds_def x23_def by blast
  moreover have "fst best = d" unfolding d(2) by (simp add: trial_record_def Let_def)
  ultimately have "\<exists>a. best = (x23, a, 0)" using zero by (metis prod.collapse)
  then show ?thesis
    using sw mn unfolding calibrate_muon_g2_v361_def Let_def fw_def [symmetric]
      ds_def [symmetric] x23_def [symmetric]
    by auto
qed

lemma min_from_keep:
  "list_all (\<lambda>y. \<bar>snd (snd b)\<bar> \<le> \<bar>snd (snd y)\<bar>) xs \<Longrightarrow> min_from b xs = b"
  by (induction xs) auto

lemma min_from_append: "min_from b (xs @ ys) = min_from (min_from b xs) ys"
  by (induction xs arbitrary: b) auto

lemma min_from_reaches:
  "list_all (\<lambda>y. \<bar>snd (snd r)\<bar> < \<bar>snd (snd y)\<bar>) (b # xs) \<Longrightarrow> min_from b (xs @ [r]) = r"
  by (induction xs arbitrary: b) auto

lemma min_abs_significance_first:
  assumes "list_all (\<lambda>y. \<bar>snd (snd r)\<bar> < \<bar>snd (snd y)\<bar>) pre"
    and "list_all (\<lambda>y. \<bar>snd (snd r)\<bar> \<le> \<bar>snd (snd y)\<bar>) post"
  shows "min_abs_significance (pre @ r # post) = Inr r"
proof (cases pre)
  case Nil
  then show ?thesis using assms(2) by (simp add: min_abs_significance_def min_from_keep)
next
  case (Cons b xs)
  have "min_from b (xs @ r # post) = min_from (min_from b (xs @ [r])) post"
    using min_from_append [of b "xs @ [r]" post] by simp
  also have "\<dots> = min_from r post" using min_from_reaches [of r b xs] assms(1) Cons by simp
  also have "\<dots> = r" using assms(2) by (rule min_from_keep)
  finally show ?thesis using Cons by (simp add: min_abs_significance_def)
qed

lemma sweep_outcome:
  "sweep (fw_set_berry_phases (new_framework 2) (Some 2.17) (Some 4.32) (Some 10.53))
         (linspace (1.43 / 10 ^ 10) (1.46 / 10 ^ 10) 30) []
     = Inr (map (trial_record
                   (set_berry_phases (init 2 True) (Some 2.17) (Some 4.32) (Some 10.53)))
                (linspace (1.43 / 10 ^ 10) (1.46 / 10 ^ 10) 30))"
proof -
  let ?fw = "fw_set_berry_phases (new_framework 2) (Some 2.17) (Some 4.32) (Some 10.53)"
  have ok: "store_ok (g2_calculator ?fw)"
    unfolding swept_engine by (rule swept_engine_fields(9)) simp
  show ?thesis using sweep_records [OF ok, of _ "[]"] unfolding swept_engine by simp
qed

lemma linspace_length: "length (linspace a b 30) = 30"
  by (simp add: linspace_def)

text \<open>
  Claim C3. The calibration run starts from the default engine with phases
  \<open>(2.17, 4.32, 10.53)\<close> and goes through the 30 points of
  \<open>linspace(1.43e-10, 1.46e-10, 30)\<close> in order. For each point it sets the
  muon's raw correction and evaluates with the overlap variant, so the loop
  returns the 30 trial records in grid order. The selection returns the first
  record among those of least absolute significance. The run returns grid
  point number 23 (counted from 0), about \<open>1.45379e-10\<close>, with significance
  \<open>0\<close>: a best value within \<open>[1.43e-10, 1.46e-10]\<close> whose significance has
  absolute value at most \<open>0.05\<close>.
\<close>

theorem calibration_round_trip:
  "sweep (fw_set_berry_phases (new_framework 2) (Some 2.17) (Some 4.32) (Some 10.53))
         (linspace (1.43 / 10 ^ 10) (1.46 / 10 ^ 10) 30) []
     = Inr (map (trial_record
                   (set_berry_phases (init 2 True) (Some 2.17) (Some 4.32) (Some 10.53)))
                (linspace (1.43 / 10 ^ 10) (1.46 / 10 ^ 10) 30))
   \<and> length (linspace (1.43 / 10 ^ 10) (1.46 / 10 ^ 10) 30) = 30
   \<and> (list_all (\<lambda>y. \<bar>snd (snd r)\<bar> < \<bar>snd (snd y)\<bar>) pre
        \<and> list_all (\<lambda>y. \<bar>snd (snd r)\<bar> \<le> \<bar>snd (snd y)\<bar>) post
      \<longrightarrow> min_abs_significance (pre @ r # post) = Inr r)
   \<and> (\<exists>best_delta best_significance.
         calibrate_muon_g2_v361 = Inr (best_delta, best_significance)
       \<and> best_delta = 23 * ((1.46 / 10 ^ 10 - 1.43 / 10 ^ 10) / 29) + 1.43 / 10 ^ 10
       \<and> best_significance = 0
       \<and> 1.43 / 10 ^ 10 \<le> best_delta \<and> best_delta \<le> 1.46 / 10 ^ 10
       \<and> \<bar>best_significance\<bar> \<le> 0.05)"
proof -
  have lo: "(1.43::real) / 10 ^ 10 \<le> 23 * ((1.46 / 10 ^ 10 - 1.43 / 10 ^ 10) / 29) + 1.43 / 10 ^ 10"
    by simp
  have hi: "23 * ((1.46 / 10 ^ 10 - 1.43 / 10 ^ 10) / 29) + 1.43 / 10 ^ 10
              \<le> (1.46::real) / 10 ^ 10"
    by simp
  have z: "\<bar>0::real\<bar> \<le> 0.05" by simp
  have last: "\<exists>best_delta best_significance.
         calibrate_muon_g2_v361 = Inr (best_delta, best_significance)
       \<and> best_delta = 23 * ((1.46 / 10 ^ 10 - 1.43 / 10 ^ 10) / 29) + 1.43 / 10 ^ 10
       \<and> best_significance = 0
       \<and> 1.43 / 10 ^ 10 \<le> best_delta \<and> best_delta \<le> 1.46 / 10 ^ 10
       \<and> \<bar>best_significance\<bar> \<le> 0.05"
    using calibration_outcome lo hi z by blast
  show ?thesis
    using sweep_outcome linspace_length min_abs_significance_first [of r pre post] last
    by blast
qed

theorem calibration_round_trip_witness:
  "list_all (\<lambda>y. \<bar>snd (snd (2, 2, - 1 :: real))\<bar> < \<bar>snd (snd y)\<bar>) [(1 :: real, 1 :: real, 2)]
   \<and> list_all (\<lambda>y. \<bar>snd (snd (2, 2, - 1 :: real))\<bar> \<le> \<bar>snd (snd y)\<bar>)
        [(3 :: real, 3 :: real, 1), (4, 4, - 3)]
   \<and> min_abs_significance [(1, 1, 2), (2, 2, - 1), (3, 3, 1), (4, 4, - 3)] = Inr (2, 2, - 1)
   \<and> calibrate_muon_g2_v361
        = Inr (23 * ((1.46 / 10 ^ 10 - 1.43 / 10 ^ 10) / 29) + 1.43 / 10 ^ 10, 0)"
proof -
  have h1: "list_all (\<lambda>y. \<bar>snd (snd (2, 2, - 1 :: real))\<bar> < \<bar>snd (snd y)\<bar>)
              [(1 :: real, 1 :: real, 2)]"
    by simp
  have h2: "list_all (\<lambda>y. \<bar>snd (snd (2, 2, - 1 :: real))\<bar> \<le> \<bar>snd (snd y)\<bar>)
              [(3 :: real, 3 :: real, 1), (4, 4, - 3)]"
    by simp
  note t = calibration_round_trip [of "(2, 2, - 1)" "[(1, 1, 2)]" "[(3, 3, 1), (4, 4, - 3)]"]
  from t h1 h2 have m: "min_abs_significance ([(1, 1, 2)] @ (2, 2, - 1) # [(3, 3, 1), (4, 4, - 3)])
                          = Inr (2, 2, - 1)"
    by blast
  from t have c: "calibrate_muon_g2_v361
                    = Inr (23 * ((1.46 / 10 ^ 10 - 1.43 / 10 ^ 10) / 29) + 1.43 / 10 ^ 10, 0)"
    by blast
  from m have m': "min_abs_significance [(1, 1, 2), (2, 2, - 1), (3, 3, 1), (4, 4, - 3)]
                     = Inr (2, 2, - 1)"
    by (simp only: append_Cons append_Nil)
  from h1 h2 m' c show ?thesis by blast
qed

end
